theory Spec2Isabelle
  imports Main "HOL-Library.Word"
begin

section \<open>Error codes (exception.cpp)\<close>

text \<open>
  \<open>SPXHR\<close> is the pointer-sized unsigned integer the C interface returns; the
  64-bit target is modelled. No arithmetic is done on it in the sources below.
\<close>

type_synonym SPXHR = "64 word"

text \<open>
  The symbolic constants that \<open>errorToString\<close> lists, in the order of the table.
  Their numeric values are macros of \<open>spxerror.h\<close>, which is not among the sources:
  every definition that needs a value takes the assignment \<open>V\<close> of values to names
  as a parameter.
\<close>

datatype spx_name =
    SPXERR_NOT_IMPL
  | SPXERR_UNINITIALIZED
  | SPXERR_ALREADY_INITIALIZED
  | SPXERR_UNHANDLED_EXCEPTION
  | SPXERR_NOT_FOUND
  | SPXERR_INVALID_ARG
  | SPXERR_TIMEOUT
  | SPXERR_ALREADY_IN_PROGRESS
  | SPXERR_FILE_OPEN_FAILED
  | SPXERR_UNEXPECTED_EOF
  | SPXERR_INVALID_HEADER
  | SPXERR_AUDIO_IS_PUMPING
  | SPXERR_UNSUPPORTED_FORMAT
  | SPXERR_ABORT
  | SPXERR_MIC_NOT_AVAILABLE
  | SPXERR_INVALID_STATE
  | SPXERR_UUID_CREATE_FAILED
  | SPXERR_SETFORMAT_UNEXPECTED_STATE_TRANSITION
  | SPXERR_PROCESS_AUDIO_INVALID_STATE
  | SPXERR_START_RECOGNIZING_INVALID_STATE_TRANSITION
  | SPXERR_UNEXPECTED_CREATE_OBJECT_FAILURE
  | SPXERR_MIC_ERROR
  | SPXERR_NO_AUDIO_INPUT
  | SPXERR_UNEXPECTED_USP_SITE_FAILURE
  | SPXERR_BUFFER_TOO_SMALL
  | SPXERR_OUT_OF_MEMORY
  | SPXERR_RUNTIME_ERROR
  | SPXERR_INVALID_URL
  | SPXERR_INVALID_REGION
  | SPXERR_SWITCH_MODE_NOT_ALLOWED

text \<open>The preprocessor's \<open>#x\<close>: the spelling of the macro argument.\<close>

fun name_string :: "spx_name \<Rightarrow> string" where
  "name_string SPXERR_NOT_IMPL = ''SPXERR_NOT_IMPL''"
| "name_string SPXERR_UNINITIALIZED = ''SPXERR_UNINITIALIZED''"
| "name_string SPXERR_ALREADY_INITIALIZED = ''SPXERR_ALREADY_INITIALIZED''"
| "name_string SPXERR_UNHANDLED_EXCEPTION = ''SPXERR_UNHANDLED_EXCEPTION''"
| "name_string SPXERR_NOT_FOUND = ''SPXERR_NOT_FOUND''"
| "name_string SPXERR_INVALID_ARG = ''SPXERR_INVALID_ARG''"
| "name_string SPXERR_TIMEOUT = ''SPXERR_TIMEOUT''"
| "name_string SPXERR_ALREADY_IN_PROGRESS = ''SPXERR_ALREADY_IN_PROGRESS''"
| "name_string SPXERR_FILE_OPEN_FAILED = ''SPXERR_FILE_OPEN_FAILED''"
| "name_string SPXERR_UNEXPECTED_EOF = ''SPXERR_UNEXPECTED_EOF''"
| "name_string SPXERR_INVALID_HEADER = ''SPXERR_INVALID_HEADER''"
| "name_string SPXERR_AUDIO_IS_PUMPING = ''SPXERR_AUDIO_IS_PUMPING''"
| "name_string SPXERR_UNSUPPORTED_FORMAT = ''SPXERR_UNSUPPORTED_FORMAT''"
| "name_string SPXERR_ABORT = ''SPXERR_ABORT''"
| "name_string SPXERR_MIC_NOT_AVAILABLE = ''SPXERR_MIC_NOT_AVAILABLE''"
| "name_string SPXERR_INVALID_STATE = ''SPXERR_INVALID_STATE''"
| "name_string SPXERR_UUID_CREATE_FAILED = ''SPXERR_UUID_CREATE_FAILED''"
| "name_string SPXERR_SETFORMAT_UNEXPECTED_STATE_TRANSITION =
     ''SPXERR_SETFORMAT_UNEXPECTED_STATE_TRANSITION''"
| "name_string SPXERR_PROCESS_AUDIO_INVALID_STATE = ''SPXERR_PROCESS_AUDIO_INVALID_STATE''"
| "name_string SPXERR_START_RECOGNIZING_INVALID_STATE_TRANSITION =
     ''SPXERR_START_RECOGNIZING_INVALID_STATE_TRANSITION''"
| "name_string SPXERR_UNEXPECTED_CREATE_OBJECT_FAILURE =
     ''SPXERR_UNEXPECTED_CREATE_OBJECT_FAILURE''"
| "name_string SPXERR_MIC_ERROR = ''SPXERR_MIC_ERROR''"
| "name_string SPXERR_NO_AUDIO_INPUT = ''SPXERR_NO_AUDIO_INPUT''"
| "name_string SPXERR_UNEXPECTED_USP_SITE_FAILURE = ''SPXERR_UNEXPECTED_USP_SITE_FAILURE''"
| "name_string SPXERR_BUFFER_TOO_SMALL = ''SPXERR_BUFFER_TOO_SMALL''"
| "name_string SPXERR_OUT_OF_MEMORY = ''SPXERR_OUT_OF_MEMORY''"
| "name_string SPXERR_RUNTIME_ERROR = ''SPXERR_RUNTIME_ERROR''"
| "name_string SPXERR_INVALID_URL = ''SPXERR_INVALID_URL''"
| "name_string SPXERR_INVALID_REGION = ''SPXERR_INVALID_REGION''"
| "name_string SPXERR_SWITCH_MODE_NOT_ALLOWED = ''SPXERR_SWITCH_MODE_NOT_ALLOWED''"

text \<open>\<open>#define _MAP_ENTRY(x) { x, #x }\<close>: the value of the macro and its spelling.\<close>

definition MAP_ENTRY :: "(spx_name \<Rightarrow> SPXHR) \<Rightarrow> spx_name \<Rightarrow> SPXHR \<times> string" where
  "MAP_ENTRY V x = (V x, name_string x)"

definition errorToString_names :: "spx_name list" where
  "errorToString_names =
     [SPXERR_NOT_IMPL, SPXERR_UNINITIALIZED, SPXERR_ALREADY_INITIALIZED,
      SPXERR_UNHANDLED_EXCEPTION, SPXERR_NOT_FOUND, SPXERR_INVALID_ARG, SPXERR_TIMEOUT,
      SPXERR_ALREADY_IN_PROGRESS, SPXERR_FILE_OPEN_FAILED, SPXERR_UNEXPECTED_EOF,
      SPXERR_INVALID_HEADER, SPXERR_AUDIO_IS_PUMPING, SPXERR_UNSUPPORTED_FORMAT,
      SPXERR_ABORT, SPXERR_MIC_NOT_AVAILABLE, SPXERR_INVALID_STATE,
      SPXERR_UUID_CREATE_FAILED, SPXERR_SETFORMAT_UNEXPECTED_STATE_TRANSITION,
      SPXERR_PROCESS_AUDIO_INVALID_STATE,
      SPXERR_START_RECOGNIZING_INVALID_STATE_TRANSITION,
      SPXERR_UNEXPECTED_CREATE_OBJECT_FAILURE, SPXERR_MIC_ERROR, SPXERR_NO_AUDIO_INPUT,
      SPXERR_UNEXPECTED_USP_SITE_FAILURE, SPXERR_BUFFER_TOO_SMALL, SPXERR_OUT_OF_MEMORY,
      SPXERR_RUNTIME_ERROR, SPXERR_INVALID_URL, SPXERR_INVALID_REGION,
      SPXERR_SWITCH_MODE_NOT_ALLOWED]"

text \<open>
  The initialiser list of the \<open>std::map\<close>, entry by entry. \<open>find\<close> is \<open>map_of\<close> on
  it; the two agree whenever the keys are pairwise different (with equal keys the
  standard leaves open which entry the map keeps).
\<close>

definition errorToString :: "(spx_name \<Rightarrow> SPXHR) \<Rightarrow> (SPXHR \<times> string) list" where
  "errorToString V = map (MAP_ENTRY V) errorToString_names"

text \<open>
  \<open>sstream << std::hex << hr\<close> for an unsigned integer: the digits of the value in base
  16, lower case, most significant first, no leading zero, \<open>0\<close> for zero.
\<close>

definition hex_digit :: "nat \<Rightarrow> char" where
  "hex_digit d = ''0123456789abcdef'' ! d"

fun hex :: "nat \<Rightarrow> string" where
  "hex n = (if n < 16 then [hex_digit n] else hex (n div 16) @ [hex_digit (n mod 16)])"

declare hex.simps [simp del]

text \<open>Reading a string of lower-case hexadecimal digits back as a number.\<close>

definition digit_value :: "char \<Rightarrow> nat" where
  "digit_value c =
     (let k = (of_char c :: nat) in if 48 \<le> k \<and> k \<le> 57 then k - 48 else k - 87)"

definition is_hex_digit :: "char \<Rightarrow> bool" where
  "is_hex_digit c =
     (let k = (of_char c :: nat) in (48 \<le> k \<and> k \<le> 57) \<or> (97 \<le> k \<and> k \<le> 102))"

definition hex_value :: "string \<Rightarrow> nat" where
  "hex_value s = foldl (\<lambda>acc c. 16 * acc + digit_value c) 0 s"

definition stringify :: "(spx_name \<Rightarrow> SPXHR) \<Rightarrow> SPXHR \<Rightarrow> string" where
  "stringify V hr =
     (let sstream = ''0x'' @ hex (unat hr) in
      case map_of (errorToString V) hr of
        Some item \<Rightarrow> sstream @ '' ('' @ item @ '')''
      | None \<Rightarrow> sstream)"

text \<open>
  One assignment of pairwise different values to the names, used to run the
  definitions on concrete inputs.
\<close>

fun spxerror_values :: "spx_name \<Rightarrow> SPXHR" where
  "spxerror_values SPXERR_NOT_IMPL = 0xfff"
| "spxerror_values SPXERR_UNINITIALIZED = 0x001"
| "spxerror_values SPXERR_ALREADY_INITIALIZED = 0x002"
| "spxerror_values SPXERR_UNHANDLED_EXCEPTION = 0x003"
| "spxerror_values SPXERR_NOT_FOUND = 0x004"
| "spxerror_values SPXERR_INVALID_ARG = 0x005"
| "spxerror_values SPXERR_TIMEOUT = 0x006"
| "spxerror_values SPXERR_ALREADY_IN_PROGRESS = 0x007"
| "spxerror_values SPXERR_FILE_OPEN_FAILED = 0x008"
| "spxerror_values SPXERR_UNEXPECTED_EOF = 0x009"
| "spxerror_values SPXERR_INVALID_HEADER = 0x00a"
| "spxerror_values SPXERR_AUDIO_IS_PUMPING = 0x00b"
| "spxerror_values SPXERR_UNSUPPORTED_FORMAT = 0x00c"
| "spxerror_values SPXERR_ABORT = 0x00d"
| "spxerror_values SPXERR_MIC_NOT_AVAILABLE = 0x00e"
| "spxerror_values SPXERR_INVALID_STATE = 0x00f"
| "spxerror_values SPXERR_UUID_CREATE_FAILED = 0x010"
| "spxerror_values SPXERR_SETFORMAT_UNEXPECTED_STATE_TRANSITION = 0x011"
| "spxerror_values SPXERR_PROCESS_AUDIO_INVALID_STATE = 0x012"
| "spxerror_values SPXERR_START_RECOGNIZING_INVALID_STATE_TRANSITION = 0x013"
| "spxerror_values SPXERR_UNEXPECTED_CREATE_OBJECT_FAILURE = 0x014"
| "spxerror_values SPXERR_MIC_ERROR = 0x015"
| "spxerror_values SPXERR_NO_AUDIO_INPUT = 0x016"
| "spxerror_values SPXERR_UNEXPECTED_USP_SITE_FAILURE = 0x017"
| "spxerror_values SPXERR_BUFFER_TOO_SMALL = 0x019"
| "spxerror_values SPXERR_OUT_OF_MEMORY = 0x01a"
| "spxerror_values SPXERR_RUNTIME_ERROR = 0x01b"
| "spxerror_values SPXERR_INVALID_URL = 0x01c"
| "spxerror_values SPXERR_INVALID_REGION = 0x01d"
| "spxerror_values SPXERR_SWITCH_MODE_NOT_ALLOWED = 0x01e"

section \<open>ExceptionWithCallStack (exception.cpp)\<close>

type_synonym size_t = "64 word"

text \<open>
  The stack of the calling thread, innermost frame first. \<open>Debug::GetCallStack\<close> is
  not among the sources: it is the parameter \<open>G\<close>, which renders the current stack
  given the number of frames to skip and the flag \<open>makeFunctionNamesStandOut\<close>.
\<close>

type_synonym frames = "string list"

type_synonym callstack_reader = "frames \<Rightarrow> size_t \<Rightarrow> bool \<Rightarrow> string"

text \<open>A C string read from a buffer: the characters before the first NUL.\<close>

definition c_str :: "string \<Rightarrow> string" where
  "c_str s = takeWhile (\<lambda>c. c \<noteq> CHR 0x00) s"

text \<open>
  The object: the string the \<open>std::runtime_error\<close> base was built from, and the two
  members. The class has no method that assigns to any of them.
\<close>

record ExceptionWithCallStack =
  runtime_error_arg :: string
  m_callstack :: string
  m_error :: SPXHR

text \<open>\<open>std::runtime_error::what()\<close> returns a \<open>const char*\<close>.\<close>

definition what :: "ExceptionWithCallStack \<Rightarrow> string" where
  "what ex = c_str (runtime_error_arg ex)"

definition GetCallStack :: "ExceptionWithCallStack \<Rightarrow> string" where
  "GetCallStack ex = c_str (m_callstack ex)"

definition GetErrorCode :: "ExceptionWithCallStack \<Rightarrow> SPXHR" where
  "GetErrorCode ex = m_error ex"

text \<open>
  The two constructors. \<open>stk\<close> is the stack at the place of the constructor call; the
  constructor's own frame is on top of it when the call stack is read.
\<close>

definition ExceptionWithCallStack_from_error ::
  "(spx_name \<Rightarrow> SPXHR) \<Rightarrow> callstack_reader \<Rightarrow> frames \<Rightarrow> SPXHR \<Rightarrow> size_t \<Rightarrow> ExceptionWithCallStack"
where
  "ExceptionWithCallStack_from_error V G stk error skipLevels =
     \<lparr> runtime_error_arg = ''Exception with an error code: '' @ stringify V error,
       m_callstack = G (''ExceptionWithCallStack'' # stk) (skipLevels + 1) True,
       m_error = error \<rparr>"

definition ExceptionWithCallStack_from_message ::
  "callstack_reader \<Rightarrow> frames \<Rightarrow> string \<Rightarrow> SPXHR \<Rightarrow> size_t \<Rightarrow> ExceptionWithCallStack"
where
  "ExceptionWithCallStack_from_message G stk message error skipLevels =
     \<lparr> runtime_error_arg = message,
       m_callstack = G (''ExceptionWithCallStack'' # stk) (skipLevels + 1) True,
       m_error = error \<rparr>"

text \<open>
  The throw helpers never return: the value of each is the exception it throws
  (\<open>throw ex\<close> copies \<open>ex\<close>). The trace macro only logs.
\<close>

definition ThrowWithCallstack ::
  "(spx_name \<Rightarrow> SPXHR) \<Rightarrow> callstack_reader \<Rightarrow> frames \<Rightarrow> SPXHR \<Rightarrow> size_t \<Rightarrow> ExceptionWithCallStack"
where
  "ThrowWithCallstack V G stk hr skipLevels =
     ExceptionWithCallStack_from_error V G (''ThrowWithCallstack'' # stk) hr (skipLevels + 1)"

definition ThrowRuntimeError ::
  "(spx_name \<Rightarrow> SPXHR) \<Rightarrow> callstack_reader \<Rightarrow> frames \<Rightarrow> string \<Rightarrow> size_t \<Rightarrow> ExceptionWithCallStack"
where
  "ThrowRuntimeError V G stk msg skipLevels =
     ExceptionWithCallStack_from_message G (''ThrowRuntimeError'' # stk)
       (''Runtime error: '' @ msg) (V SPXERR_INVALID_ARG) (skipLevels + 1)"

definition ThrowInvalidArgumentException ::
  "(spx_name \<Rightarrow> SPXHR) \<Rightarrow> callstack_reader \<Rightarrow> frames \<Rightarrow> string \<Rightarrow> size_t \<Rightarrow> ExceptionWithCallStack"
where
  "ThrowInvalidArgumentException V G stk msg skipLevels =
     ExceptionWithCallStack_from_message G (''ThrowInvalidArgumentException'' # stk)
       (''Invalid argument exception: '' @ msg) (V SPXERR_INVALID_ARG) (skipLevels + 1)"

definition ThrowLogicError ::
  "(spx_name \<Rightarrow> SPXHR) \<Rightarrow> callstack_reader \<Rightarrow> frames \<Rightarrow> string \<Rightarrow> size_t \<Rightarrow> ExceptionWithCallStack"
where
  "ThrowLogicError V G stk msg skipLevels =
     ExceptionWithCallStack_from_message G (''ThrowLogicError'' # stk)
       (''Logic error: '' @ msg) (V SPXERR_INVALID_ARG) (skipLevels + 1)"

text \<open>
  What a \<open>const std::runtime_error&\<close> can refer to: an object whose dynamic type is
  \<open>std::runtime_error\<close> itself (built from a string), or an
  \<open>ExceptionWithCallStack\<close>. Through the reference only \<open>what()\<close> is read.
\<close>

datatype std_runtime_error =
    Plain_runtime_error string
  | Dynamic_ExceptionWithCallStack ExceptionWithCallStack

fun runtime_error_what :: "std_runtime_error \<Rightarrow> string" where
  "runtime_error_what (Plain_runtime_error arg) = c_str arg"
| "runtime_error_what (Dynamic_ExceptionWithCallStack ex) = what ex"

section \<open>The handle table\<close>

text \<open>
  The handle table (\<open>handle_table.h\<close>, the class behind
  \<open>CSpxSharedPtrHandleTableManager::Get\<close>) is not among the sources;
  \<open>exception.cpp\<close> calls its \<open>TrackHandle\<close>. The table is modelled from sections 3
  and 4.1 of the specification, where the operations are called \<open>Track\<close>,
  \<open>Resolve\<close>, \<open>Release\<close> and \<open>IsValid\<close>.
\<close>

text \<open>Modelled from the spec: a handle is an opaque token (section 3).\<close>

type_synonym SPXHANDLE = nat

text \<open>
  Modelled from the spec: the one failure of the table's operations, \<open>NotFound\<close>
  (section 4.1).
\<close>

datatype handle_error = NotFound

text \<open>
  Modelled from the spec: the table maps the handles in use to the objects they
  stand for (section 3).
\<close>

record 'a handle_table =
  tracked :: "SPXHANDLE \<rightharpoonup> 'a"

text \<open>Modelled from the spec: the table at its first use holds nothing.\<close>

definition table_empty :: "'a handle_table" where
  "table_empty = \<lparr> tracked = Map.empty \<rparr>"

text \<open>
  Modelled from the spec: \<open>Track(object) -> Handle\<close> registers the object and
  returns a fresh handle, unique among the objects currently tracked (section 4.1);
  the value of a handle may be used again once its object has been released
  (section 3). The specification does not say which handle is chosen.
  \<open>Track t obj h\<close> is the table after a call of \<open>Track(obj)\<close> on \<open>t\<close> that returns
  \<open>h\<close>; there is none when \<open>h\<close> is tracked in \<open>t\<close>, since no call returns such a
  handle.
\<close>

definition Track ::
  "('a, 'm) handle_table_scheme \<Rightarrow> 'a \<Rightarrow> SPXHANDLE \<Rightarrow> ('a, 'm) handle_table_scheme option"
where
  "Track t obj h =
     (if tracked t h = None then Some (t\<lparr> tracked := (tracked t)(h \<mapsto> obj) \<rparr>) else None)"

text \<open>
  Modelled from the spec: \<open>Resolve(handle)\<close> returns the object, or fails with
  \<open>NotFound\<close> if the handle was never issued or has been released.
\<close>

definition Resolve :: "('a, 'm) handle_table_scheme \<Rightarrow> SPXHANDLE \<Rightarrow> handle_error + 'a" where
  "Resolve t h = (case tracked t h of None \<Rightarrow> Inl NotFound | Some obj \<Rightarrow> Inr obj)"

text \<open>
  Modelled from the spec: \<open>Release(handle)\<close> drops the table's entry, or fails with
  \<open>NotFound\<close> for a handle that is unknown or already released.
\<close>

definition Release ::
  "('a, 'm) handle_table_scheme \<Rightarrow> SPXHANDLE \<Rightarrow> handle_error + ('a, 'm) handle_table_scheme"
where
  "Release t h =
     (case tracked t h of
        None \<Rightarrow> Inl NotFound
      | Some obj \<Rightarrow> Inr (t\<lparr> tracked := (tracked t)(h := None) \<rparr>))"

text \<open>Modelled from the spec: \<open>IsValid(handle)\<close>, the existence check that never fails.\<close>

definition IsValid :: "('a, 'm) handle_table_scheme \<Rightarrow> SPXHANDLE \<Rightarrow> bool" where
  "IsValid t h = (tracked t h \<noteq> None)"

text \<open>
  What happens on a table: a call of \<open>Track\<close> with the handle it returned, and calls
  of the other three operations. A sequence of events has a table after it when
  every \<open>Track\<close> in it returned a handle that was free at that moment. A failed
  \<open>Release\<close> leaves the table as it was.
\<close>

datatype 'a table_event =
    Track_returns 'a SPXHANDLE
  | Resolve_called SPXHANDLE
  | Release_called SPXHANDLE
  | IsValid_called SPXHANDLE

fun table_after_event ::
  "('a, 'm) handle_table_scheme \<Rightarrow> 'a table_event \<Rightarrow> ('a, 'm) handle_table_scheme option"
where
  "table_after_event t (Track_returns obj h) = Track t obj h"
| "table_after_event t (Resolve_called h) = Some t"
| "table_after_event t (Release_called h) =
     Some (case Release t h of Inl e \<Rightarrow> t | Inr t' \<Rightarrow> t')"
| "table_after_event t (IsValid_called h) = Some t"

fun table_after_events ::
  "('a, 'm) handle_table_scheme \<Rightarrow> 'a table_event list \<Rightarrow> ('a, 'm) handle_table_scheme option"
where
  "table_after_events t [] = Some t"
| "table_after_events t (e # es) =
     (case table_after_event t e of None \<Rightarrow> None | Some t' \<Rightarrow> table_after_events t' es)"

text \<open>
  Modelled from the spec: one table that meets the contract of \<open>Track\<close>. It issues
  handles from a counter, so the handle it returns is free and it never returns a
  value twice. This is the table the stored exceptions below are kept in;
  \<open>TrackHandle\<close> is the name \<open>exception.cpp\<close> calls \<open>Track\<close> by.
\<close>

record 'a counting_handle_table = "'a handle_table" +
  next_handle :: SPXHANDLE

text \<open>
  Modelled from the spec: the table at its first use holds nothing. Zero is never
  issued: a return code of 0 is read as success (section 6).
\<close>

definition handle_table_empty :: "'a counting_handle_table" where
  "handle_table_empty = \<lparr> tracked = Map.empty, next_handle = 1 \<rparr>"

text \<open>
  Modelled from the spec: \<open>Track\<close> on the counting table. It registers the object
  under the counter's value, returns that value and advances the counter.
\<close>

definition TrackHandle ::
  "'a counting_handle_table \<Rightarrow> 'a \<Rightarrow> SPXHANDLE \<times> 'a counting_handle_table"
where
  "TrackHandle t obj =
     (next_handle t,
      t\<lparr> tracked := (tracked t)(next_handle t \<mapsto> obj), next_handle := Suc (next_handle t) \<rparr>)"

text \<open>
  The calls clients make on the counting table, and the table after a sequence of
  them. A failed \<open>Release\<close> leaves the table as it was.
\<close>

datatype 'a table_call =
    Call_Track 'a
  | Call_Resolve SPXHANDLE
  | Call_Release SPXHANDLE
  | Call_IsValid SPXHANDLE

fun table_after :: "'a counting_handle_table \<Rightarrow> 'a table_call \<Rightarrow> 'a counting_handle_table" where
  "table_after t (Call_Track obj) = snd (TrackHandle t obj)"
| "table_after t (Call_Resolve h) = t"
| "table_after t (Call_Release h) = (case Release t h of Inl e \<Rightarrow> t | Inr t' \<Rightarrow> t')"
| "table_after t (Call_IsValid h) = t"

definition table_after_all ::
  "'a counting_handle_table \<Rightarrow> 'a table_call list \<Rightarrow> 'a counting_handle_table"
where
  "table_after_all t calls = foldl table_after t calls"

section \<open>StoreException (exception.cpp)\<close>

text \<open>
  The process-wide table of stored exceptions is passed in and returned.

  The first overload takes its argument by rvalue reference and move-constructs the
  new object from it. The new object has the three components the argument had. The
  argument is left moved-from: its \<open>m_error\<close>, an integer, is as before, while the
  state of its \<open>std::runtime_error\<close> base and of its \<open>std::string\<close> member is valid
  but not fixed by the language. That state is the parameter \<open>moved_from\<close>; the
  argument after the call is the third component of the result.

  The second overload takes a \<open>const\<close> reference and builds the new object from
  \<open>ex.what()\<close> with the constructor's default arguments \<open>SPXERR_UNHANDLED_EXCEPTION\<close>
  and \<open>0\<close>. In both the handle is returned reinterpreted as an \<open>SPXHR\<close>.
\<close>

definition StoreException ::
  "(ExceptionWithCallStack \<Rightarrow> ExceptionWithCallStack) \<Rightarrow> ExceptionWithCallStack
     \<Rightarrow> ExceptionWithCallStack counting_handle_table
     \<Rightarrow> SPXHR \<times> ExceptionWithCallStack counting_handle_table \<times> ExceptionWithCallStack"
where
  "StoreException moved_from ex errorHandles =
     (let (handle, errorHandles') = TrackHandle errorHandles ex
      in (of_nat handle, errorHandles',
          \<lparr> runtime_error_arg = runtime_error_arg (moved_from ex),
            m_callstack = m_callstack (moved_from ex),
            m_error = m_error ex \<rparr>))"

text \<open>
  One moved-from state, used to run the definition on concrete inputs: the string
  member is left empty, as a moved-from \<open>std::string\<close> usually is, and the base
  keeps its message.
\<close>

definition moved_from_emptied :: "ExceptionWithCallStack \<Rightarrow> ExceptionWithCallStack" where
  "moved_from_emptied ex = ex\<lparr> m_callstack := [] \<rparr>"

definition StoreException_runtime_error ::
  "(spx_name \<Rightarrow> SPXHR) \<Rightarrow> callstack_reader \<Rightarrow> frames \<Rightarrow> std_runtime_error
     \<Rightarrow> ExceptionWithCallStack counting_handle_table
     \<Rightarrow> SPXHR \<times> ExceptionWithCallStack counting_handle_table"
where
  "StoreException_runtime_error V G stk ex errorHandles =
     (let (handle, errorHandles') =
            TrackHandle errorHandles
              (ExceptionWithCallStack_from_message G (''StoreException'' # stk)
                 (runtime_error_what ex) (V SPXERR_UNHANDLED_EXCEPTION) 0)
      in (of_nat handle, errorHandles'))"

section \<open>IntentRecognitionResult (speechapi_cxx_intent_recognition_result.h)\<close>

text \<open>
  Modelled from the spec: \<open>SPX_THROW_ON_FAIL\<close> and the test \<open>SPX_FAILED\<close> behind it
  are macros of a header that is not among the sources. Section 6 of the
  specification: a return code is 0 for success and nonzero for a failure.
\<close>

definition SPX_FAILED :: "SPXHR \<Rightarrow> bool" where
  "SPX_FAILED hr = (hr \<noteq> 0)"

text \<open>
  How \<open>PopulateIntentFields\<close> can end other than by returning: the exception thrown
  for a failed return code, or a read past the end of \<open>sz\<close> when the array holds no
  NUL (undefined in C++; written out here).
\<close>

datatype populate_error = Thrown SPXHR | Read_past_sz

definition maxCharCount :: nat where
  "maxCharCount = 1024"

text \<open>
  The two functions of the C interface are parameters: \<open>is_valid\<close> is
  \<open>recognizer_result_handle_is_valid\<close>, and \<open>GetIntentId hresult n\<close> gives the return
  code of \<open>IntentResult_GetIntentId(hresult, sz, n)\<close> and the characters it leaves in
  \<open>sz\<close>, an array of \<open>maxCharCount + 1\<close> characters. \<open>pintentId\<close> says whether the
  pointer is non-null; \<open>intentId\<close> is the string it points to on entry, and the
  result is that string on return.
\<close>

definition PopulateIntentFields ::
  "(SPXHANDLE \<Rightarrow> bool) \<Rightarrow> (SPXHANDLE \<Rightarrow> nat \<Rightarrow> SPXHR \<times> string) \<Rightarrow> SPXHANDLE \<Rightarrow> bool \<Rightarrow> string
     \<Rightarrow> populate_error + string"
where
  "PopulateIntentFields is_valid GetIntentId hresult pintentId intentId =
     (if pintentId \<and> is_valid hresult then
        (let (hr, written) = GetIntentId hresult maxCharCount;
             sz = take (maxCharCount + 1) written
         in if SPX_FAILED hr then Inl (Thrown hr)
            else if CHR 0x00 \<in> set sz then Inr (c_str sz)
            else Inl Read_past_sz)
      else Inr intentId)"

text \<open>
  The object after construction: the \<open>RecognitionResult\<close> base (its class is not among
  the sources, so it is a type parameter) and the member \<open>m_intentId\<close>, to which the
  public reference \<open>IntentId\<close> is bound.
\<close>

record 'b IntentRecognitionResult =
  RecognitionResult_base :: 'b
  m_intentId :: string

definition IntentId :: "'b IntentRecognitionResult \<Rightarrow> string" where
  "IntentId r = m_intentId r"

text \<open>
  How the construction can fail: the base initialiser throws (what it throws is of
  a type parameter), or the body does.
\<close>

datatype 'e construction_error = Base_threw 'e | Body_threw populate_error

text \<open>
  The constructor. The initialiser \<open>RecognitionResult(hresult)\<close> runs first, with the
  same handle; the constructor of the base is not among the sources and is the
  parameter \<open>RecognitionResult\<close>, which gives the base or what it throws. Then
  \<open>m_intentId\<close> is default-constructed and the body calls
  \<open>PopulateIntentFields(hresult, &m_intentId)\<close>. The trace macro only logs.
\<close>

definition IntentRecognitionResult_ctor ::
  "(SPXHANDLE \<Rightarrow> bool) \<Rightarrow> (SPXHANDLE \<Rightarrow> nat \<Rightarrow> SPXHR \<times> string) \<Rightarrow> (SPXHANDLE \<Rightarrow> 'e + 'b)
     \<Rightarrow> SPXHANDLE \<Rightarrow> 'e construction_error + 'b IntentRecognitionResult"
where
  "IntentRecognitionResult_ctor is_valid GetIntentId RecognitionResult hresult =
     (case RecognitionResult hresult of
        Inl e \<Rightarrow> Inl (Base_threw e)
      | Inr base \<Rightarrow>
          (case PopulateIntentFields is_valid GetIntentId hresult True [] of
             Inl e \<Rightarrow> Inl (Body_threw e)
           | Inr s \<Rightarrow> Inr \<lparr> RecognitionResult_base = base, m_intentId = s \<rparr>))"

section \<open>Starting asynchronous operations\<close>

text \<open>
  The asynchronous operation runtime is not among the sources: the test file
  \<open>speech_recognizer_tests.cpp\<close> only calls it. It is modelled from sections 3 and
  4.3 of the specification, for one session and one caller at a time.
\<close>

text \<open>Modelled from the spec: the kinds of operation (section 3).\<close>

datatype op_kind = RecognizeOnce | StartContinuous | StopContinuous | StartKeyword | StopKeyword

text \<open>
  Modelled from the spec: the states of an operation, \<open>Pending\<close>, \<open>Running\<close> and the
  three terminal ones (section 3).
\<close>

datatype op_state = Pending | Running | Completed | Failed | Cancelled

fun terminal :: "op_state \<Rightarrow> bool" where
  "terminal Pending = False"
| "terminal Running = False"
| "terminal Completed = True"
| "terminal Failed = True"
| "terminal Cancelled = True"

text \<open>Modelled from the spec: the one failure of \<open>Start\<close> (section 4.3).\<close>

datatype start_error = AlreadyInProgress

text \<open>
  Modelled from the spec: the conflict policy of section 4.3. Recognize-once and
  start-continuous conflict with each other and with themselves, start-keyword
  conflicts with itself, and the stop kinds conflict with nothing.
\<close>

definition conflicts :: "op_kind \<Rightarrow> op_kind \<Rightarrow> bool" where
  "conflicts a b =
     ((a = RecognizeOnce \<or> a = StartContinuous) \<and> (b = RecognizeOnce \<or> b = StartContinuous)
      \<or> (a = StartKeyword \<and> b = StartKeyword))"

text \<open>
  Modelled from the spec: a session holds its operations (kind and state of each, in
  the order they were started) and the work scheduled for execution.
\<close>

record 'w session =
  operations :: "(op_kind \<times> op_state) list"
  scheduled :: "'w list"

definition session_empty :: "'w session" where
  "session_empty = \<lparr> operations = [], scheduled = [] \<rparr>"

text \<open>
  Modelled from the spec: an operation of a kind that conflicts with \<open>kind\<close> is on
  the session and not yet terminal.
\<close>

definition in_conflict :: "'w session \<Rightarrow> op_kind \<Rightarrow> bool" where
  "in_conflict s kind = list_ex (\<lambda>(k, st). conflicts k kind \<and> \<not> terminal st) (operations s)"

text \<open>
  Modelled from the spec: \<open>Start(session, kind, work)\<close> of section 4.3. It fails at
  once with \<open>AlreadyInProgress\<close> if an operation of a conflicting kind on the session
  is not yet terminal; otherwise it schedules \<open>work\<close> and returns a handle (the
  index) of the new operation, which is \<open>Running\<close>. The session after the call is
  the second component.
\<close>

definition Start :: "'w session \<Rightarrow> op_kind \<Rightarrow> 'w \<Rightarrow> (start_error + nat) \<times> 'w session" where
  "Start s kind work =
     (if in_conflict s kind then (Inl AlreadyInProgress, s)
      else (Inr (length (operations s)),
            s\<lparr> operations := operations s @ [(kind, Running)],
               scheduled := scheduled s @ [work] \<rparr>))"

text \<open>
  Modelled from the spec: operation \<open>i\<close> reaches the state \<open>st\<close>; a terminal state
  is never left (section 3).
\<close>

definition reach :: "'w session \<Rightarrow> nat \<Rightarrow> op_state \<Rightarrow> 'w session" where
  "reach s i st =
     (if i < length (operations s) \<and> \<not> terminal (snd (operations s ! i))
      then s\<lparr> operations := (operations s)[i := (fst (operations s ! i), st)] \<rparr>
      else s)"

section \<open>Auxiliary notions for the proofs\<close>

text \<open>Every handle at or above the counter is unused.\<close>

definition table_ok :: "'a counting_handle_table \<Rightarrow> bool" where
  "table_ok t = (\<forall>h. next_handle t \<le> h \<longrightarrow> tracked t h = None)"

section \<open>Hexadecimal rendering and the format of error codes\<close>

lemma nat_less_16_cases:
  "(d::nat) < 16 \<Longrightarrow> d = 0 \<or> d = 1 \<or> d = 2 \<or> d = 3 \<or> d = 4 \<or> d = 5 \<or> d = 6 \<or> d = 7 \<or>
     d = 8 \<or> d = 9 \<or> d = 10 \<or> d = 11 \<or> d = 12 \<or> d = 13 \<or> d = 14 \<or> d = 15"
  by arith

lemma digit_value_hex_digit: "d < 16 \<Longrightarrow> digit_value (hex_digit d) = d"
  by (drule nat_less_16_cases) (auto simp: digit_value_def hex_digit_def)

lemma is_hex_digit_hex_digit: "d < 16 \<Longrightarrow> is_hex_digit (hex_digit d)"
  by (drule nat_less_16_cases) (auto simp: is_hex_digit_def hex_digit_def)

lemma hex_digit_nonzero: "0 < d \<Longrightarrow> d < 16 \<Longrightarrow> hex_digit d \<noteq> CHR ''0''"
  by (drule nat_less_16_cases) (auto simp: hex_digit_def)

lemma hex_value_snoc: "hex_value (s @ [c]) = 16 * hex_value s + digit_value c"
  by (simp add: hex_value_def)

lemma hex_value_hex: "hex_value (hex n) = n"
proof (induction n rule: hex.induct)
  case (1 n)
  show ?case
  proof (cases "n < 16")
    case True
    then show ?thesis by (simp add: hex.simps [of n] hex_value_def digit_value_hex_digit)
  next
    case False
    with 1 have "hex_value (hex (n div 16)) = n div 16" by simp
    with False show ?thesis
      by (simp add: hex.simps [of n] hex_value_snoc digit_value_hex_digit)
  qed
qed

lemma hex_digits: "list_all is_hex_digit (hex n)"
proof (induction n rule: hex.induct)
  case (1 n)
  then show ?case
    by (cases "n < 16") (simp_all add: hex.simps [of n] is_hex_digit_hex_digit)
qed

lemma hex_nonempty: "hex n \<noteq> []"
  by (simp add: hex.simps [of n])

lemma hex_no_leading_zero: "0 < n \<Longrightarrow> hd (hex n) \<noteq> CHR ''0''"
proof (induction n rule: hex.induct)
  case (1 n)
  show ?case
  proof (cases "n < 16")
    case True
    with 1(2) show ?thesis by (simp add: hex.simps [of n] hex_digit_nonzero)
  next
    case False
    then have "0 < n div 16" by (simp add: div_greater_zero_iff)
    with 1 False have "hd (hex (n div 16)) \<noteq> CHR ''0''" by simp
    with False show ?thesis by (simp add: hex.simps [of n] hex_nonempty)
  qed
qed

lemma all_names: "n \<in> set errorToString_names"
  by (cases n) (simp_all add: errorToString_names_def)

lemma map_of_entries:
  "inj V \<Longrightarrow> n \<in> set xs \<Longrightarrow> map_of (map (MAP_ENTRY V) xs) (V n) = Some (name_string n)"
  by (induction xs) (auto simp: MAP_ENTRY_def inj_def)

lemma map_of_entries_None:
  "(\<forall>n. V n \<noteq> hr) \<Longrightarrow> map_of (map (MAP_ENTRY V) xs) hr = None"
  by (induction xs) (auto simp: MAP_ENTRY_def)

lemma distinct_spxerror_values: "distinct (map spxerror_values errorToString_names)"
  by (simp add: errorToString_names_def)

lemma inj_spxerror_values: "inj spxerror_values"
proof -
  have "inj_on spxerror_values (set errorToString_names)"
    using distinct_spxerror_values by (simp add: distinct_map)
  moreover have "set errorToString_names = UNIV"
    using all_names by auto
  ultimately show ?thesis by simp
qed

lemma spxerror_values_not_0x18: "spxerror_values n \<noteq> 0x18"
  by (cases n) simp_all

text \<open>
  Claim C4. For every code \<open>hr\<close>, \<open>stringify\<close> returns \<open>0x\<close> followed by the
  hexadecimal rendering of \<open>hr\<close>, followed by the symbolic name in parentheses
  exactly when \<open>hr\<close> is the value of one of the constants of the table, and nothing
  more otherwise. The rendering consists of lower-case hexadecimal digits, reads
  back as the value of \<open>hr\<close>, and has no leading zero unless \<open>hr\<close> is zero. The
  values of the constants are taken to be pairwise different.
\<close>

theorem stringify_format:
  assumes "inj V"
  shows "(\<forall>n. V n = hr \<longrightarrow>
            stringify V hr = ''0x'' @ hex (unat hr) @ '' ('' @ name_string n @ '')'')
       \<and> ((\<forall>n. V n \<noteq> hr) \<longrightarrow> stringify V hr = ''0x'' @ hex (unat hr))
       \<and> hex_value (hex (unat hr)) = unat hr
       \<and> list_all is_hex_digit (hex (unat hr))
       \<and> (hr \<noteq> 0 \<longrightarrow> hd (hex (unat hr)) \<noteq> CHR ''0'')"
proof (intro conjI allI impI)
  fix n assume "V n = hr"
  then have "map_of (errorToString V) hr = Some (name_string n)"
    using map_of_entries [OF assms all_names, of n] by (simp add: errorToString_def)
  then show "stringify V hr = ''0x'' @ hex (unat hr) @ '' ('' @ name_string n @ '')''"
    by (simp add: stringify_def)
next
  assume "\<forall>n. V n \<noteq> hr"
  then have "map_of (errorToString V) hr = None"
    by (simp add: errorToString_def map_of_entries_None)
  then show "stringify V hr = ''0x'' @ hex (unat hr)"
    by (simp add: stringify_def)
next
  show "hex_value (hex (unat hr)) = unat hr" by (rule hex_value_hex)
next
  show "list_all is_hex_digit (hex (unat hr))" by (rule hex_digits)
next
  assume "hr \<noteq> 0"
  then have "0 < unat hr" by (simp add: unat_gt_0)
  then show "hd (hex (unat hr)) \<noteq> CHR ''0''" by (rule hex_no_leading_zero)
qed

theorem stringify_format_witness:
  "inj spxerror_values
   \<and> stringify spxerror_values 0x1b = ''0x1b (SPXERR_RUNTIME_ERROR)''
   \<and> stringify spxerror_values 0x18 = ''0x18''
   \<and> hex_value ''1b'' = 27"
proof -
  have a: "spxerror_values SPXERR_RUNTIME_ERROR = 0x1b" by simp
  have b: "\<forall>n. spxerror_values n \<noteq> 0x18" by (simp add: spxerror_values_not_0x18)
  have h1b: "hex 27 = ''1b''" by (simp add: hex.simps hex_digit_def)
  have h18: "hex 24 = ''18''" by (simp add: hex.simps hex_digit_def)
  note known = stringify_format [OF inj_spxerror_values, of "0x1b"]
  note unknown = stringify_format [OF inj_spxerror_values, of "0x18"]
  have "stringify spxerror_values 0x1b = ''0x1b (SPXERR_RUNTIME_ERROR)''"
    using known [THEN conjunct1, rule_format, OF a] by (simp add: h1b)
  moreover have "stringify spxerror_values 0x18 = ''0x18''"
    using unknown [THEN conjunct2, THEN conjunct1] b by (simp add: h18)
  moreover have "hex_value ''1b'' = 27"
    using known [THEN conjunct2, THEN conjunct2, THEN conjunct1] by (simp add: h1b)
  ultimately show ?thesis using inj_spxerror_values by simp
qed

section \<open>The life of a handle\<close>

lemma tracked_kept_after_event:
  assumes "table_after_event t e = Some t'" and "tracked t h = Some obj"
      and "e \<noteq> Release_called h"
  shows "tracked t' h = Some obj"
  using assms
  by (cases e) (auto simp: Track_def Release_def split: if_splits option.splits)

lemma tracked_kept_after_events:
  "table_after_events t es = Some t' \<Longrightarrow> tracked t h = Some obj
     \<Longrightarrow> Release_called h \<notin> set es \<Longrightarrow> tracked t' h = Some obj"
proof (induction es arbitrary: t)
  case Nil
  then show ?case by simp
next
  case (Cons e es)
  from Cons.prems(1) obtain t1 where step: "table_after_event t e = Some t1"
    and rest: "table_after_events t1 es = Some t'"
    by (auto split: option.splits)
  from Cons.prems(3) have "e \<noteq> Release_called h" and no: "Release_called h \<notin> set es"
    by auto
  with step Cons.prems(2) have "tracked t1 h = Some obj"
    by (simp add: tracked_kept_after_event)
  then show ?case
    by (rule Cons.IH [OF rest _ no])
qed

lemma free_kept_after_event:
  assumes "table_after_event t e = Some t'" and "tracked t h = None"
      and "\<forall>obj'. e \<noteq> Track_returns obj' h"
  shows "tracked t' h = None"
  using assms
  by (cases e) (auto simp: Track_def Release_def split: if_splits option.splits)

lemma free_kept_after_events:
  "table_after_events t es = Some t' \<Longrightarrow> tracked t h = None
     \<Longrightarrow> \<forall>obj'. Track_returns obj' h \<notin> set es \<Longrightarrow> tracked t' h = None"
proof (induction es arbitrary: t)
  case Nil
  then show ?case by simp
next
  case (Cons e es)
  from Cons.prems(1) obtain t1 where step: "table_after_event t e = Some t1"
    and rest: "table_after_events t1 es = Some t'"
    by (auto split: option.splits)
  from Cons.prems(3) have "\<forall>obj'. e \<noteq> Track_returns obj' h"
    and no: "\<forall>obj'. Track_returns obj' h \<notin> set es"
    by auto
  with step Cons.prems(2) have "tracked t1 h = None"
    by (simp add: free_kept_after_event)
  then show ?case
    by (rule Cons.IH [OF rest _ no])
qed

lemma table_after_events_append:
  "table_after_events t (es @ es') =
     (case table_after_events t es of None \<Rightarrow> None | Some t' \<Rightarrow> table_after_events t' es')"
  by (induction es arbitrary: t) (auto split: option.splits)

text \<open>
  Claim C5, amended. Let \<open>h\<close> be the handle a call of \<open>Track\<close> returned for \<open>obj\<close>, on
  any table. After any further events none of which is a \<open>Release\<close> of \<open>h\<close>,
  \<open>Resolve h\<close> succeeds with \<open>obj\<close>. The first \<open>Release h\<close> then succeeds, and from
  then on \<open>Resolve h\<close> and \<open>Release h\<close> fail with \<open>NotFound\<close> for as long as no later
  \<open>Track\<close> returns \<open>h\<close> again.
\<close>

theorem handle_lifecycle:
  assumes issued: "Track t0 obj h = Some t1"
      and later: "table_after_events t1 evs1 = Some t2"
      and no_release: "Release_called h \<notin> set evs1"
  shows "Resolve t2 h = Inr obj
       \<and> IsValid t2 h
       \<and> (\<exists>t3. Release t2 h = Inr t3
             \<and> (\<forall>evs2 t4. table_after_events t3 evs2 = Some t4
                           \<and> (\<forall>obj'. Track_returns obj' h \<notin> set evs2)
                   \<longrightarrow> Resolve t4 h = Inl NotFound
                       \<and> Release t4 h = Inl NotFound
                       \<and> \<not> IsValid t4 h))"
proof -
  define t3 where "t3 = t2\<lparr> tracked := (tracked t2)(h := None) \<rparr>"
  from issued have in1: "tracked t1 h = Some obj"
    by (auto simp: Track_def split: if_splits)
  have in2: "tracked t2 h = Some obj"
    by (rule tracked_kept_after_events [OF later in1 no_release])
  have rel: "Release t2 h = Inr t3"
    by (simp add: Release_def in2 t3_def)
  have out3: "tracked t3 h = None"
    by (simp add: t3_def)
  have gone: "Resolve t4 h = Inl NotFound \<and> Release t4 h = Inl NotFound \<and> \<not> IsValid t4 h"
    if "table_after_events t3 evs2 = Some t4" and "\<forall>obj'. Track_returns obj' h \<notin> set evs2"
    for evs2 t4
  proof -
    have "tracked t4 h = None"
      by (rule free_kept_after_events [OF that(1) out3 that(2)])
    then show ?thesis
      by (simp add: Resolve_def Release_def IsValid_def)
  qed
  have "Resolve t2 h = Inr obj"
    by (simp add: Resolve_def in2)
  moreover have "IsValid t2 h"
    by (simp add: IsValid_def in2)
  ultimately show ?thesis
    using rel gone by blast
qed

theorem handle_lifecycle_witness:
  "Track (table_empty :: string handle_table) ''a'' 1 = Some \<lparr> tracked = [1 \<mapsto> ''a''] \<rparr>
   \<and> Release_called 1 \<notin> set [Track_returns ''c'' 2, Release_called 2, Resolve_called 1]
   \<and> map_option (\<lambda>t. Resolve t 1)
        (table_after_events \<lparr> tracked = [1 \<mapsto> ''a''] \<rparr>
           [Track_returns ''c'' 2, Release_called 2, Resolve_called 1]) = Some (Inr ''a'')
   \<and> map_option (\<lambda>t. Resolve t 1)
        (table_after_events \<lparr> tracked = [1 \<mapsto> ''a''] \<rparr>
           [Track_returns ''c'' 2, Release_called 2, Resolve_called 1, Release_called 1,
            Track_returns ''d'' 2, Release_called 1]) = Some (Inl NotFound)"
proof -
  let ?t1 = "\<lparr> tracked = [1 \<mapsto> ''a''] \<rparr> :: string handle_table"
  let ?evs1 = "[Track_returns ''c'' 2, Release_called 2, Resolve_called (1::nat)]"
  let ?evs2 = "[Track_returns ''d'' 2, Release_called (1::nat)]"
  have a: "Track (table_empty :: string handle_table) ''a'' 1 = Some ?t1"
    by (simp add: Track_def table_empty_def)
  obtain t2 where b: "table_after_events ?t1 ?evs1 = Some t2"
    by (simp add: Track_def Release_def)
  have c: "Release_called 1 \<notin> set ?evs1"
    by simp
  note life = handle_lifecycle [OF a b c]
  from life obtain t3 where rel: "Release t2 1 = Inr t3"
    and gone: "\<forall>evs2 t4. table_after_events t3 evs2 = Some t4
                 \<and> (\<forall>obj'. Track_returns obj' 1 \<notin> set evs2)
                 \<longrightarrow> Resolve t4 1 = Inl NotFound"
    by blast
  from rel have free3: "tracked t3 2 = None"
    using b by (auto simp: Track_def Release_def split: option.splits)
  then obtain t4 where d: "table_after_events t3 ?evs2 = Some t4"
    by (simp add: Track_def)
  have "\<forall>obj'. Track_returns obj' 1 \<notin> set ?evs2"
    by simp
  with gone d have e: "Resolve t4 1 = Inl NotFound"
    by blast
  have "table_after_events t2 (Release_called 1 # ?evs2) = Some t4"
    using rel d by simp
  with b have "table_after_events ?t1 (?evs1 @ Release_called 1 # ?evs2) = Some t4"
    by (simp only: table_after_events_append option.case)
  with e have "map_option (\<lambda>t. Resolve t 1)
        (table_after_events ?t1 (?evs1 @ Release_called 1 # ?evs2)) = Some (Inl NotFound)"
    by simp
  moreover from life b have "map_option (\<lambda>t. Resolve t 1) (table_after_events ?t1 ?evs1)
      = Some (Inr ''a'')"
    by simp
  ultimately show ?thesis
    using a c by simp
qed

text \<open>
  Claim C5 as stated, without the proviso, fails: the specification lets the value
  of a released handle be used again. \<open>Track\<close> returns 1, \<open>Resolve 1\<close> succeeds,
  \<open>Release 1\<close> succeeds, a later \<open>Track\<close> returns 1 again, and \<open>Resolve 1\<close> succeeds
  although \<open>Release 1\<close> has occurred exactly once.
\<close>

theorem handle_lifecycle_counterexample:
  "map_option (\<lambda>t. Resolve t 1)
     (table_after_events (table_empty :: string handle_table) [Track_returns ''a'' 1])
     = Some (Inr ''a'')
   \<and> map_option (\<lambda>t. isl (Release t 1))
     (table_after_events (table_empty :: string handle_table) [Track_returns ''a'' 1])
     = Some False
   \<and> map_option (\<lambda>t. Resolve t 1)
     (table_after_events (table_empty :: string handle_table)
        [Track_returns ''a'' 1, Release_called 1, Track_returns ''b'' 1])
     = Some (Inr ''b'')"
  by (simp add: table_empty_def Track_def Release_def Resolve_def)

section \<open>The counting table\<close>

lemma table_ok_empty: "table_ok handle_table_empty"
  by (simp add: table_ok_def handle_table_empty_def)

lemma table_ok_TrackHandle: "table_ok t \<Longrightarrow> table_ok (snd (TrackHandle t obj))"
  by (simp add: table_ok_def TrackHandle_def)

lemma TrackHandle_meets_contract:
  "table_ok t \<Longrightarrow>
     Track t obj (fst (TrackHandle t obj))
       = Some ((snd (TrackHandle t obj))\<lparr> next_handle := next_handle t \<rparr>)"
  by (simp add: table_ok_def TrackHandle_def Track_def)

lemma table_ok_after: "table_ok t \<Longrightarrow> table_ok (table_after t c)"
  by (cases c) (auto simp: table_ok_def TrackHandle_def Release_def split: option.splits)

lemma table_ok_after_all: "table_ok t \<Longrightarrow> table_ok (table_after_all t cs)"
  unfolding table_after_all_def
  by (induction cs arbitrary: t) (simp_all add: table_ok_after)

lemma tracked_kept_after:
  "table_ok t \<Longrightarrow> tracked t h = Some obj \<Longrightarrow> c \<noteq> Call_Release h
     \<Longrightarrow> tracked (table_after t c) h = Some obj"
  by (cases c) (auto simp: table_ok_def TrackHandle_def Release_def split: option.splits)

lemma tracked_kept_after_all:
  "table_ok t \<Longrightarrow> tracked t h = Some obj \<Longrightarrow> Call_Release h \<notin> set cs
     \<Longrightarrow> tracked (table_after_all t cs) h = Some obj"
  unfolding table_after_all_def
proof (induction cs arbitrary: t)
  case Nil
  then show ?case by simp
next
  case (Cons c cs)
  from Cons.prems have "c \<noteq> Call_Release h" and "Call_Release h \<notin> set cs" by auto
  with Cons show ?case
    by (simp add: table_ok_after tracked_kept_after)
qed

section \<open>Stored exceptions\<close>

lemma c_str_idem: "c_str (c_str s) = c_str s"
  by (simp add: c_str_def)

lemma c_str_no_NUL: "CHR 0x00 \<notin> set s \<Longrightarrow> c_str s = s"
  by (auto simp: c_str_def)

lemma StoreException_handle:
  "StoreException moved_from ex t =
     (of_nat (next_handle t), snd (TrackHandle t ex),
      \<lparr> runtime_error_arg = runtime_error_arg (moved_from ex),
        m_callstack = m_callstack (moved_from ex),
        m_error = m_error ex \<rparr>)"
  by (simp add: StoreException_def TrackHandle_def)

lemma StoreException_runtime_error_handle:
  "StoreException_runtime_error V G stk ex t =
     (of_nat (next_handle t),
      snd (TrackHandle t
        (ExceptionWithCallStack_from_message G (''StoreException'' # stk)
           (runtime_error_what ex) (V SPXERR_UNHANDLED_EXCEPTION) 0)))"
  by (simp add: StoreException_runtime_error_def TrackHandle_def)

lemma Resolve_stored:
  "Resolve (snd (TrackHandle t obj)) (next_handle t) = Inr obj"
  by (simp add: Resolve_def TrackHandle_def)

text \<open>
  Claim C1. For every message \<open>m\<close> and code \<open>c\<close>: build the record with the
  message-taking constructor and store it with \<open>StoreException\<close> in a table reached
  from the empty one. The value returned is the handle the table issued. Resolving
  that handle later, after any calls on the table that do not release it, yields a
  record whose \<open>what()\<close> is the \<open>what()\<close> of the record built (the C string of \<open>m\<close>,
  which is \<open>m\<close> itself when \<open>m\<close> holds no NUL) and whose \<open>GetErrorCode()\<close> is \<open>c\<close>.
\<close>

theorem store_exception_roundtrip:
  assumes t: "t = table_after_all handle_table_empty calls0"
      and no_release: "Call_Release (next_handle t) \<notin> set calls"
  shows "(case StoreException moved_from
                 (ExceptionWithCallStack_from_message G stk m c skipLevels) t of
      (hr, t', source) \<Rightarrow>
        hr = of_nat (next_handle t)
        \<and> (\<exists>r. Resolve (table_after_all t' calls) (next_handle t) = Inr r
               \<and> what r = what (ExceptionWithCallStack_from_message G stk m c skipLevels)
               \<and> what r = c_str m
               \<and> (CHR 0x00 \<notin> set m \<longrightarrow> what r = m)
               \<and> GetErrorCode r = c))"
proof -
  let ?ex = "ExceptionWithCallStack_from_message G stk m c skipLevels"
  let ?t' = "snd (TrackHandle t ?ex)"
  have "table_ok t"
    unfolding t by (rule table_ok_after_all [OF table_ok_empty])
  then have ok: "table_ok ?t'"
    by (rule table_ok_TrackHandle)
  have "tracked ?t' (next_handle t) = Some ?ex"
    by (simp add: TrackHandle_def)
  from tracked_kept_after_all [OF ok this no_release]
  have "Resolve (table_after_all ?t' calls) (next_handle t) = Inr ?ex"
    by (simp add: Resolve_def)
  then show ?thesis
    by (simp add: StoreException_handle what_def GetErrorCode_def
        ExceptionWithCallStack_from_message_def c_str_no_NUL)
qed

theorem store_exception_roundtrip_witness:
  "CHR 0x00 \<notin> set ''boom''
   \<and> Call_Release 1 \<notin> set [Call_Track (ThrowLogicError spxerror_values (\<lambda>stk n b. concat stk) [] ''x'' 0),
        Call_Release 2]
   \<and> (case StoreException moved_from_emptied
        (ExceptionWithCallStack_from_message (\<lambda>stk n b. concat stk) [''main''] ''boom'' 0x1b 0)
        handle_table_empty of
      (hr, t', source) \<Rightarrow> hr = 1
        \<and> map_sum id what
            (Resolve (table_after_all t'
               [Call_Track (ThrowLogicError spxerror_values (\<lambda>stk n b. concat stk) [] ''x'' 0),
                Call_Release 2]) 1) = Inr ''boom''
        \<and> map_sum id GetErrorCode
            (Resolve (table_after_all t'
               [Call_Track (ThrowLogicError spxerror_values (\<lambda>stk n b. concat stk) [] ''x'' 0),
                Call_Release 2]) 1) = Inr 0x1b)"
proof -
  let ?G = "\<lambda>(stk :: frames) (n :: size_t) (b :: bool). concat stk"
  let ?calls = "[Call_Track (ThrowLogicError spxerror_values ?G [] ''x'' 0), Call_Release 2]"
  have n: "next_handle (handle_table_empty :: ExceptionWithCallStack counting_handle_table) = 1"
    by (simp add: handle_table_empty_def)
  have t: "(handle_table_empty :: ExceptionWithCallStack counting_handle_table)
      = table_after_all handle_table_empty []"
    by (simp add: table_after_all_def)
  have r: "Call_Release
       (next_handle (handle_table_empty :: ExceptionWithCallStack counting_handle_table))
      \<notin> set ?calls"
    by (simp add: n)
  show ?thesis
    using store_exception_roundtrip
      [OF t r, where G = ?G and stk = "[''main'']" and m = "''boom''"
         and c = "0x1b" and skipLevels = 0 and moved_from = moved_from_emptied]
    by (auto simp: n split: prod.splits)
qed

text \<open>
  Claim C2, on the code. A runtime-error failure should carry the code
  \<open>SPXERR_RUNTIME_ERROR\<close>. The exception that \<open>ThrowRuntimeError\<close> throws has the
  message prefixed with \<open>Runtime error: \<close> and carries \<open>SPXERR_INVALID_ARG\<close>,
  whatever the values of the constants; with the values \<open>spxerror_values\<close> that is
  not the code \<open>SPXERR_RUNTIME_ERROR\<close>.
\<close>

theorem ThrowRuntimeError_code:
  "GetErrorCode (ThrowRuntimeError V G stk msg skipLevels) = V SPXERR_INVALID_ARG
   \<and> what (ThrowRuntimeError V G stk msg skipLevels) = c_str (''Runtime error: '' @ msg)
   \<and> GetErrorCode (ThrowRuntimeError spxerror_values G stk msg skipLevels)
       \<noteq> spxerror_values SPXERR_RUNTIME_ERROR"
  by (simp add: ThrowRuntimeError_def ExceptionWithCallStack_from_message_def
      GetErrorCode_def what_def)

text \<open>
  Claim C3. For every plain \<open>std::runtime_error\<close>, the record that the second overload
  of \<open>StoreException\<close> stores carries the code \<open>SPXERR_UNHANDLED_EXCEPTION\<close>.
\<close>

theorem plain_runtime_error_stored_as_unhandled:
  "(case StoreException_runtime_error V G stk (Plain_runtime_error arg) t of
      (hr, t') \<Rightarrow>
        hr = of_nat (next_handle t)
        \<and> (\<exists>r. Resolve t' (next_handle t) = Inr r
               \<and> GetErrorCode r = V SPXERR_UNHANDLED_EXCEPTION))"
  by (simp add: StoreException_runtime_error_handle Resolve_stored GetErrorCode_def
      ExceptionWithCallStack_from_message_def)

theorem plain_runtime_error_stored_as_unhandled_witness:
  "(case StoreException_runtime_error spxerror_values (\<lambda>stk n b. concat stk) [''api'']
           (Plain_runtime_error ''bad state'') handle_table_empty of
      (hr, t') \<Rightarrow> hr = 1 \<and> map_sum id GetErrorCode (Resolve t' 1) = Inr 3)"
proof -
  have n: "next_handle (handle_table_empty :: ExceptionWithCallStack counting_handle_table) = 1"
    by (simp add: handle_table_empty_def)
  show ?thesis
    using plain_runtime_error_stored_as_unhandled
      [where V = spxerror_values and G = "\<lambda>stk n b. concat stk" and stk = "[''api'']"
         and arg = "''bad state''" and t = handle_table_empty]
    by (auto simp: n split: prod.splits)
qed

text \<open>
  Claim C9. Whatever the argument of the second overload of \<open>StoreException\<close> is, a
  plain \<open>std::runtime_error\<close> or dynamically an \<open>ExceptionWithCallStack\<close>, the stored
  record carries \<open>SPXERR_UNHANDLED_EXCEPTION\<close>, its call stack is the one read inside
  \<open>StoreException\<close> (skipping one frame), and its \<open>what()\<close> is the \<open>what()\<close> of the
  argument. The code and the call stack an \<open>ExceptionWithCallStack\<close> argument
  carried do not appear in the stored record.
\<close>

theorem runtime_error_overload_drops_code_and_stack:
  "(case StoreException_runtime_error V G stk ex t of
      (hr, t') \<Rightarrow>
        hr = of_nat (next_handle t)
        \<and> (\<exists>r. Resolve t' (next_handle t) = Inr r
               \<and> GetErrorCode r = V SPXERR_UNHANDLED_EXCEPTION
               \<and> m_callstack r = G (''ExceptionWithCallStack'' # ''StoreException'' # stk) 1 True
               \<and> GetCallStack r
                   = c_str (G (''ExceptionWithCallStack'' # ''StoreException'' # stk) 1 True)
               \<and> what r =
                   (case ex of
                      Plain_runtime_error arg \<Rightarrow> c_str arg
                    | Dynamic_ExceptionWithCallStack e \<Rightarrow> what e)))"
  by (cases ex)
     (simp_all add: StoreException_runtime_error_handle Resolve_stored GetErrorCode_def
        GetCallStack_def ExceptionWithCallStack_from_message_def what_def c_str_idem)

theorem runtime_error_overload_drops_code_and_stack_witness:
  "GetErrorCode (ThrowRuntimeError spxerror_values (\<lambda>stk n b. concat stk) [''deep''] ''disk'' 0) = 5
   \<and> m_callstack (ThrowRuntimeError spxerror_values (\<lambda>stk n b. concat stk) [''deep''] ''disk'' 0)
       = ''ExceptionWithCallStackThrowRuntimeErrordeep''
   \<and> (case StoreException_runtime_error spxerror_values (\<lambda>stk n b. concat stk) [''api'']
           (Dynamic_ExceptionWithCallStack
              (ThrowRuntimeError spxerror_values (\<lambda>stk n b. concat stk) [''deep''] ''disk'' 0))
           handle_table_empty of
      (hr, t') \<Rightarrow> hr = 1
        \<and> map_sum id GetErrorCode (Resolve t' 1) = Inr 3
        \<and> map_sum id m_callstack (Resolve t' 1) = Inr ''ExceptionWithCallStackStoreExceptionapi''
        \<and> map_sum id what (Resolve t' 1) = Inr ''Runtime error: disk'')
   \<and> (case StoreException_runtime_error spxerror_values (\<lambda>stk n b. concat stk) [''api'']
           (Plain_runtime_error ''bad state'') handle_table_empty of
      (hr, t') \<Rightarrow> hr = 1
        \<and> map_sum id GetErrorCode (Resolve t' 1) = Inr 3
        \<and> map_sum id m_callstack (Resolve t' 1) = Inr ''ExceptionWithCallStackStoreExceptionapi''
        \<and> map_sum id what (Resolve t' 1) = Inr ''bad state'')"
proof -
  let ?G = "\<lambda>(stk :: frames) (n :: size_t) (b :: bool). concat stk"
  let ?ex = "ThrowRuntimeError spxerror_values ?G [''deep''] ''disk'' 0"
  have n: "next_handle (handle_table_empty :: ExceptionWithCallStack counting_handle_table) = 1"
    by (simp add: handle_table_empty_def)
  have w: "what ?ex = ''Runtime error: disk''"
    by (simp add: ThrowRuntimeError_def ExceptionWithCallStack_from_message_def what_def
        c_str_def)
  have e: "GetErrorCode ?ex = 5"
    and s: "m_callstack ?ex = ''ExceptionWithCallStackThrowRuntimeErrordeep''"
    by (simp_all add: ThrowRuntimeError_def ExceptionWithCallStack_from_message_def
        GetErrorCode_def)
  have dynamic: "(case StoreException_runtime_error spxerror_values ?G [''api'']
           (Dynamic_ExceptionWithCallStack ?ex) handle_table_empty of
      (hr, t') \<Rightarrow> hr = 1
        \<and> map_sum id GetErrorCode (Resolve t' 1) = Inr 3
        \<and> map_sum id m_callstack (Resolve t' 1) = Inr ''ExceptionWithCallStackStoreExceptionapi''
        \<and> map_sum id what (Resolve t' 1) = Inr ''Runtime error: disk'')"
    using runtime_error_overload_drops_code_and_stack
      [where V = spxerror_values and G = ?G and stk = "[''api'']"
         and ex = "Dynamic_ExceptionWithCallStack ?ex" and t = handle_table_empty]
    by (auto simp: n w split: prod.splits)
  have plain: "(case StoreException_runtime_error spxerror_values ?G [''api'']
           (Plain_runtime_error ''bad state'') handle_table_empty of
      (hr, t') \<Rightarrow> hr = 1
        \<and> map_sum id GetErrorCode (Resolve t' 1) = Inr 3
        \<and> map_sum id m_callstack (Resolve t' 1) = Inr ''ExceptionWithCallStackStoreExceptionapi''
        \<and> map_sum id what (Resolve t' 1) = Inr ''bad state'')"
    using runtime_error_overload_drops_code_and_stack
      [where V = spxerror_values and G = ?G and stk = "[''api'']"
         and ex = "Plain_runtime_error ''bad state''" and t = handle_table_empty]
    by (auto simp: n c_str_def split: prod.splits)
  from e s dynamic plain show ?thesis
    by simp
qed




section \<open>Constructing an IntentRecognitionResult\<close>

lemma c_str_length: "CHR 0x00 \<in> set s \<Longrightarrow> length (c_str s) < length s"
  unfolding c_str_def
  by (induction s) auto

lemma PopulateIntentFields_invalid:
  "\<not> is_valid hresult \<Longrightarrow>
     PopulateIntentFields is_valid GetIntentId hresult pintentId intentId = Inr intentId"
  by (simp add: PopulateIntentFields_def)

lemma PopulateIntentFields_valid:
  "is_valid hresult \<Longrightarrow>
     PopulateIntentFields is_valid GetIntentId hresult True intentId =
       (case GetIntentId hresult 1024 of
          (hr, written) \<Rightarrow>
            if hr \<noteq> 0 then Inl (Thrown hr)
            else if CHR 0x00 \<in> set (take 1025 written) then Inr (c_str (take 1025 written))
            else Inl Read_past_sz)"
  by (simp add: PopulateIntentFields_def maxCharCount_def SPX_FAILED_def Let_def
      split: prod.splits)

lemma IntentRecognitionResult_ctor_invalid:
  "\<not> is_valid hresult \<Longrightarrow>
     IntentRecognitionResult_ctor is_valid GetIntentId RecognitionResult hresult
       = (case RecognitionResult hresult of
            Inl e \<Rightarrow> Inl (Base_threw e)
          | Inr base \<Rightarrow> Inr \<lparr> RecognitionResult_base = base, m_intentId = [] \<rparr>)"
  by (simp add: IntentRecognitionResult_ctor_def PopulateIntentFields_invalid
      split: sum.splits)

lemma IntentRecognitionResult_ctor_valid:
  "is_valid hresult \<Longrightarrow>
     IntentRecognitionResult_ctor is_valid GetIntentId RecognitionResult hresult
       = (case RecognitionResult hresult of
            Inl e \<Rightarrow> Inl (Base_threw e)
          | Inr base \<Rightarrow>
              (case GetIntentId hresult 1024 of
                 (hr, written) \<Rightarrow>
                   if hr \<noteq> 0 then Inl (Body_threw (Thrown hr))
                   else if CHR 0x00 \<in> set (take 1025 written)
                     then Inr \<lparr> RecognitionResult_base = base,
                                m_intentId = c_str (take 1025 written) \<rparr>
                     else Inl (Body_threw Read_past_sz)))"
  by (simp add: IntentRecognitionResult_ctor_def PopulateIntentFields_valid
      split: sum.splits prod.splits)

lemma IntentRecognitionResult_ctor_result:
  assumes r: "IntentRecognitionResult_ctor is_valid GetIntentId RecognitionResult hresult = Inr r"
  shows "RecognitionResult hresult = Inr (RecognitionResult_base r)
       \<and> IntentId r =
           (if is_valid hresult
            then c_str (take 1025 (snd (GetIntentId hresult 1024))) else [])
       \<and> length (IntentId r) \<le> 1024"
proof -
  from r obtain base s where base: "RecognitionResult hresult = Inr base"
    and s: "PopulateIntentFields is_valid GetIntentId hresult True [] = Inr s"
    and r_eq: "r = \<lparr> RecognitionResult_base = base, m_intentId = s \<rparr>"
    by (auto simp: IntentRecognitionResult_ctor_def split: sum.splits)
  have id: "s = (if is_valid hresult
             then c_str (take 1025 (snd (GetIntentId hresult 1024))) else [])"
    using s
    by (cases "is_valid hresult")
       (auto simp: PopulateIntentFields_invalid PopulateIntentFields_valid
          split: prod.splits if_splits)
  have len: "length s \<le> 1024"
  proof (cases "is_valid hresult")
    case False
    with s show ?thesis by (simp add: PopulateIntentFields_invalid)
  next
    case True
    with s obtain written where nul: "CHR 0x00 \<in> set (take 1025 written)"
      and "s = c_str (take 1025 written)"
      by (auto simp: PopulateIntentFields_valid split: prod.splits if_splits)
    with c_str_length [OF nul] show ?thesis by simp
  qed
  from base id len show ?thesis
    by (simp add: r_eq IntentId_def)
qed

text \<open>
  Claim C10, amended. Constructing an \<open>IntentRecognitionResult\<close> fails with what the
  base initialiser \<open>RecognitionResult(hresult)\<close> throws, if it throws. If the base is
  constructed and the handle is not valid, the construction does not fail and
  leaves \<open>IntentId\<close> empty: \<open>PopulateIntentFields\<close> returns without touching the
  string, as the validity check guards the only call of the body that can throw. If
  the base is constructed and the handle is valid, the identifier is read with
  \<open>maxCharCount = 1024\<close> through the array of 1025 characters: a failed return code
  is thrown, and otherwise \<open>IntentId\<close> is the C string in the array. Every object
  constructed has an \<open>IntentId\<close> of at most 1024 characters.
\<close>

theorem intent_result_construction:
  "(\<not> is_valid hresult \<longrightarrow>
      IntentRecognitionResult_ctor is_valid GetIntentId RecognitionResult hresult
        = (case RecognitionResult hresult of
             Inl e \<Rightarrow> Inl (Base_threw e)
           | Inr base \<Rightarrow> Inr \<lparr> RecognitionResult_base = base, m_intentId = [] \<rparr>))
   \<and> (\<not> is_valid hresult \<longrightarrow>
      PopulateIntentFields is_valid GetIntentId hresult pintentId intentId = Inr intentId)
   \<and> (is_valid hresult \<longrightarrow>
      IntentRecognitionResult_ctor is_valid GetIntentId RecognitionResult hresult
        = (case RecognitionResult hresult of
             Inl e \<Rightarrow> Inl (Base_threw e)
           | Inr base \<Rightarrow>
               (case GetIntentId hresult 1024 of
                  (hr, written) \<Rightarrow>
                    if hr \<noteq> 0 then Inl (Body_threw (Thrown hr))
                    else if CHR 0x00 \<in> set (take 1025 written)
                      then Inr \<lparr> RecognitionResult_base = base,
                                 m_intentId = c_str (take 1025 written) \<rparr>
                      else Inl (Body_threw Read_past_sz))))
   \<and> (\<forall>r. IntentRecognitionResult_ctor is_valid GetIntentId RecognitionResult hresult = Inr r
          \<longrightarrow> RecognitionResult hresult = Inr (RecognitionResult_base r)
              \<and> IntentId r =
                  (if is_valid hresult
                   then c_str (take 1025 (snd (GetIntentId hresult 1024))) else [])
              \<and> length (IntentId r) \<le> 1024)"
  using IntentRecognitionResult_ctor_invalid [of is_valid hresult GetIntentId RecognitionResult]
    PopulateIntentFields_invalid [of is_valid hresult GetIntentId pintentId intentId]
    IntentRecognitionResult_ctor_valid [of is_valid hresult GetIntentId RecognitionResult]
    IntentRecognitionResult_ctor_result [of is_valid GetIntentId RecognitionResult hresult]
  by blast

theorem intent_result_construction_witness:
  "IntentRecognitionResult_ctor (\<lambda>h. h = 1) (\<lambda>h n. (0, take n ''MyIntent'' @ [CHR 0x00]))
       (\<lambda>h. Inr h :: string + nat) 2
     = Inr \<lparr> RecognitionResult_base = 2, m_intentId = [] \<rparr>
   \<and> IntentRecognitionResult_ctor (\<lambda>h. h = 1) (\<lambda>h n. (0, take n ''MyIntent'' @ [CHR 0x00]))
       (\<lambda>h. Inr h :: string + nat) 1
     = Inr \<lparr> RecognitionResult_base = 1, m_intentId = ''MyIntent'' \<rparr>
   \<and> IntentRecognitionResult_ctor (\<lambda>h. h = 1) (\<lambda>h n. (5, []))
       (\<lambda>h. Inr h :: string + nat) 1 = Inl (Body_threw (Thrown 5))
   \<and> IntentId \<lparr> RecognitionResult_base = 1 :: nat, m_intentId = ''MyIntent'' \<rparr> = ''MyIntent''"
proof -
  let ?valid = "\<lambda>h::SPXHANDLE. h = 1"
  let ?get = "\<lambda>(h::SPXHANDLE) (n::nat). (0::SPXHR, take n ''MyIntent'' @ [CHR 0x00])"
  let ?fail = "\<lambda>(h::SPXHANDLE) (n::nat). (5::SPXHR, [] :: string)"
  let ?base = "\<lambda>h::SPXHANDLE. Inr h :: string + nat"
  note invalid = intent_result_construction
    [where is_valid = ?valid and GetIntentId = ?get and RecognitionResult = ?base
       and hresult = 2]
  note valid = intent_result_construction
    [where is_valid = ?valid and GetIntentId = ?get and RecognitionResult = ?base
       and hresult = 1]
  note failing = intent_result_construction
    [where is_valid = ?valid and GetIntentId = ?fail and RecognitionResult = ?base
       and hresult = 1]
  have a: "IntentRecognitionResult_ctor ?valid ?get ?base 2
     = Inr \<lparr> RecognitionResult_base = 2, m_intentId = [] \<rparr>"
    using invalid by simp
  have b: "IntentRecognitionResult_ctor ?valid ?get ?base 1
     = Inr \<lparr> RecognitionResult_base = 1, m_intentId = ''MyIntent'' \<rparr>"
    using valid by (simp add: c_str_def)
  have c: "IntentRecognitionResult_ctor ?valid ?fail ?base 1 = Inl (Body_threw (Thrown 5))"
    using failing by simp
  have d: "IntentId \<lparr> RecognitionResult_base = 1 :: nat, m_intentId = ''MyIntent'' \<rparr>
      = ''MyIntent''"
    using valid b by (simp add: c_str_def)
  from a b c d show ?thesis by simp
qed

text \<open>
  Claim C10 as stated, that construction from a handle that is not valid does not
  fail, does not hold for every base: with a base initialiser that throws for the
  handles that are not valid, the construction from such a handle fails before the
  body is entered.
\<close>

theorem intent_result_construction_counterexample:
  "\<not> (\<lambda>h. h = 1) (2 :: SPXHANDLE)
   \<and> IntentRecognitionResult_ctor (\<lambda>h. h = 1) (\<lambda>h n. (0, take n ''MyIntent'' @ [CHR 0x00]))
       (\<lambda>h. if h = 1 then Inr () else Inl ''invalid handle'') 2
     = Inl (Base_threw ''invalid handle'')"
  by (simp add: IntentRecognitionResult_ctor_def)

section \<open>Conflicting asynchronous operations\<close>

lemma in_conflict_iff:
  "in_conflict s kind \<longleftrightarrow> (\<exists>(k, st) \<in> set (operations s). conflicts k kind \<and> \<not> terminal st)"
  by (simp add: in_conflict_def list_ex_iff)

text \<open>
  Claim C6. If the session holds an operation of a kind that conflicts with \<open>kind\<close>
  and that operation is not terminal, \<open>Start\<close> fails with \<open>AlreadyInProgress\<close> and
  leaves the session as it was: no operation is added and no work is scheduled. In
  particular, for a kind that conflicts with itself, a second \<open>Start\<close> right after a
  first one fails so.
\<close>

theorem Start_conflict:
  "((k, st) \<in> set (operations s) \<and> conflicts k kind \<and> \<not> terminal st \<longrightarrow>
      Start s kind work = (Inl AlreadyInProgress, s)
      \<and> operations (snd (Start s kind work)) = operations s
      \<and> scheduled (snd (Start s kind work)) = scheduled s)
   \<and> (conflicts kind kind \<longrightarrow>
      Start (snd (Start s kind work)) kind work'
        = (Inl AlreadyInProgress, snd (Start s kind work)))"
proof (rule conjI)
  show "(k, st) \<in> set (operations s) \<and> conflicts k kind \<and> \<not> terminal st \<longrightarrow>
      Start s kind work = (Inl AlreadyInProgress, s)
      \<and> operations (snd (Start s kind work)) = operations s
      \<and> scheduled (snd (Start s kind work)) = scheduled s"
  proof (rule impI)
    assume "(k, st) \<in> set (operations s) \<and> conflicts k kind \<and> \<not> terminal st"
    then have "in_conflict s kind"
      unfolding in_conflict_iff by blast
    then show "Start s kind work = (Inl AlreadyInProgress, s)
        \<and> operations (snd (Start s kind work)) = operations s
        \<and> scheduled (snd (Start s kind work)) = scheduled s"
      by (simp add: Start_def)
  qed
next
  show "conflicts kind kind \<longrightarrow>
      Start (snd (Start s kind work)) kind work'
        = (Inl AlreadyInProgress, snd (Start s kind work))"
  proof (rule impI)
    assume self: "conflicts kind kind"
    show "Start (snd (Start s kind work)) kind work'
          = (Inl AlreadyInProgress, snd (Start s kind work))"
    proof (cases "in_conflict s kind")
      case True
      then show ?thesis by (simp add: Start_def)
    next
      case False
      have "in_conflict (s\<lparr> operations := operations s @ [(kind, Running)],
                 scheduled := scheduled s @ [work] \<rparr>) kind"
        unfolding in_conflict_iff using self by simp
      with False show ?thesis by (simp add: Start_def)
    qed
  qed
qed

theorem Start_conflict_witness:
  "Start (session_empty :: nat session) StartContinuous 7
     = (Inr 0, \<lparr> operations = [(StartContinuous, Running)], scheduled = [7] \<rparr>)
   \<and> Start (snd (Start (session_empty :: nat session) StartContinuous 7)) StartContinuous 8
     = (Inl AlreadyInProgress, \<lparr> operations = [(StartContinuous, Running)], scheduled = [7] \<rparr>)
   \<and> Start (snd (Start (session_empty :: nat session) StartContinuous 7)) RecognizeOnce 9
     = (Inl AlreadyInProgress, \<lparr> operations = [(StartContinuous, Running)], scheduled = [7] \<rparr>)
   \<and> fst (Start (reach (snd (Start (session_empty :: nat session) StartContinuous 7)) 0 Completed)
        StartContinuous 8) = Inr 1"
proof -
  let ?s1 = "snd (Start (session_empty :: nat session) StartContinuous 7)"
  have s1: "Start (session_empty :: nat session) StartContinuous 7
     = (Inr 0, \<lparr> operations = [(StartContinuous, Running)], scheduled = [7] \<rparr>)"
    by (simp add: Start_def session_empty_def in_conflict_def)
  have s1': "?s1 = \<lparr> operations = [(StartContinuous, Running)], scheduled = [7] \<rparr>"
    by (simp add: s1)
  have twice: "Start ?s1 StartContinuous 8 = (Inl AlreadyInProgress, ?s1)"
    using Start_conflict [where kind = StartContinuous and work = 7 and work' = 8
        and s = "session_empty :: nat session"]
    by (simp add: conflicts_def)
  have other: "Start ?s1 RecognizeOnce 9 = (Inl AlreadyInProgress, ?s1)"
    using Start_conflict [where k = StartContinuous and st = Running and kind = RecognizeOnce
        and work = 9 and s = ?s1]
    unfolding s1' by (simp add: conflicts_def)
  have third: "fst (Start (reach ?s1 0 Completed) StartContinuous 8) = Inr 1"
    unfolding s1' by (simp add: reach_def Start_def in_conflict_def conflicts_def)
  from s1 twice other third show ?thesis by simp
qed

end
